theory Spec2Isabelle
  imports Main "HOL-Library.Word" "HOL-Library.Sublist"
begin

section \<open>Shared vocabulary\<close>

text \<open>
  The development follows three translation units of the library:
  \<^item> \<^verbatim>\<open>paxos++/client.cpp\<close>: \<^verbatim>\<open>client::send\<close> and \<^verbatim>\<open>client::do_request\<close>, the
    retry layer in front of the request queue;
  \<^item> \<^verbatim>\<open>paxos++/detail/tcp_connection.cpp\<close>: the outbound buffer of a connection;
  \<^item> the implementation of \<^verbatim>\<open>paxos::detail::protocol::protocol\<close> (kept in the sources
    as \<^verbatim>\<open>unnamed/part_001\<close>): the heartbeat, the command dispatcher and the framed reader
    and writer.

  A \<^verbatim>\<open>std::string\<close> is a \<^typ>\<open>string\<close> (a list of 8-bit characters), \<^verbatim>\<open>uint16_t\<close> is
  \<^typ>\<open>16 word\<close> and \<^verbatim>\<open>uint32_t\<close> is \<^typ>\<open>32 word\<close>. The code is asynchronous: a function
  returns after registering a completion handler. Each function is modelled by the calls
  it makes on its collaborators, in program order, and a handler is a function of the
  arguments it is invoked with. Log output (\<^verbatim>\<open>PAXOS_DEBUG\<close>, \<^verbatim>\<open>PAXOS_WARN\<close>) is not part
  of the model.
\<close>

text \<open>
  The exception classes of \<^verbatim>\<open>paxos::exception\<close> that the sources name:
  \<^verbatim>\<open>request_error\<close> (client.cpp), \<^verbatim>\<open>protocol_error\<close> (the protocol driver) and
  \<^verbatim>\<open>not_ready\<close> (test/connection_close1.cpp).
\<close>

datatype exception = Request_error | Not_ready | Protocol_error

text \<open>
  Modelled from the spec: \<^verbatim>\<open>PAXOS_ASSERT\<close> and \<^verbatim>\<open>PAXOS_THROW\<close> (util/debug.hpp is not
  among the sources): a violated assertion terminates the process, \<^verbatim>\<open>PAXOS_THROW\<close>
  raises its argument. A \<open>failure\<close> is how a function stops other than by returning;
  \<open>Out_of_range\<close> is what \<^verbatim>\<open>std::string::substr\<close> raises for a position past the end.
\<close>

datatype failure = Assertion_failed | Out_of_range | Thrown exception

section \<open>The client retry layer (client.cpp)\<close>

text \<open>
  Modelled from the spec: \<^verbatim>\<open>enum error_code\<close>, the type of the error a request
  completes with, is declared outside the sources; its values follow the error taxonomy
  of the specification. \<^verbatim>\<open>do_request\<close> only tests whether an error is present, so it
  is polymorphic in this type.
\<close>

datatype error_code =
    Error_transport
  | Error_protocol
  | Error_timeout
  | Error_request
  | Error_not_ready

text \<open>
  The calls \<^verbatim>\<open>do_request\<close> and its two nested handlers make:
  \<^item> \<open>Request_queue_push b r\<close>: \<^verbatim>\<open>request_queue_.push\<close> of a request for \<open>b\<close> whose
    callback captured the counter \<open>r\<close>;
  \<^item> \<open>Expires_from_now ms\<close>: \<^verbatim>\<open>timer->expires_from_now (milliseconds (ms))\<close>;
  \<^item> \<open>Async_wait e\<close>: \<^verbatim>\<open>timer->async_wait\<close>, whose handler was invoked with an error
    code that is set (\<open>e = True\<close>, the wait was cancelled) or clear;
  \<^item> \<open>Set_exception x\<close> and \<open>Set_value v\<close>: the two calls that fulfil the promise;
  \<^item> \<open>Promise_released\<close>: the last \<^verbatim>\<open>shared_ptr\<close> to the promise goes away and the
    promise is destroyed.
\<close>

datatype client_action =
    Request_queue_push string "16 word"
  | Expires_from_now nat
  | Async_wait bool
  | Set_exception exception
  | Set_value string
  | Promise_released

text \<open>
  \<^verbatim>\<open>client::do_request\<close>. The request queue and \<^verbatim>\<open>initiate_request::step1\<close> are not among
  the sources; they enter as the parameter \<open>respond\<close>: the attempt pushed with counter
  \<open>r\<close> completes by invoking its callback once with \<open>respond r\<close>, an optional error and a
  response. The timer is the parameter \<open>wait\<close>: \<open>wait r\<close> holds when the backoff wait
  started for counter \<open>r\<close> completes with an error code. The counter strictly decreases
  from one attempt to the next, so indexing both by it loses no behaviour.
\<close>

function do_request ::
  "(16 word \<Rightarrow> 'e option \<times> string) \<Rightarrow> (16 word \<Rightarrow> bool) \<Rightarrow> string \<Rightarrow> 16 word
     \<Rightarrow> client_action list"
where
  "do_request respond wait byte_array retries =
     Request_queue_push byte_array retries #
     (case respond retries of
        (Some error, response) \<Rightarrow>
          if retries > 0 then
            Expires_from_now 500 # Async_wait (wait retries) #
            (if \<not> wait retries
             then do_request respond wait byte_array (retries - 1)
             else [])
          else [Set_exception Request_error]
      | (None, response) \<Rightarrow> [Set_value response])"
  by pat_completeness auto
termination
  by (relation "measure (\<lambda>(respond, wait, byte_array, retries). unat retries)")
     (auto simp: unat_minus_one word_greater_zero_iff unat_gt_0)

declare do_request.simps [simp del]






section \<open>The outbound buffer of a connection (tcp_connection.cpp)\<close>

text \<open>
  A connection holds \<^verbatim>\<open>write_buffer_\<close>. \<^verbatim>\<open>start_write\<close> gives
  \<^verbatim>\<open>boost::asio::async_write\<close> the buffer \<^verbatim>\<open>boost::asio::buffer (write_buffer_)\<close>, which
  owns nothing: it is a view of the characters of the string, and it is invalidated by
  every non-const operation on the string (the rule of the standard library for pointers
  into a \<^verbatim>\<open>std::string\<close>, which the documentation of \<^verbatim>\<open>boost::asio::buffer\<close> adopts);
  an append may move the characters and free the storage the view points to. The socket is
  modelled by three fields:
  \<^item> \<open>in_flight\<close>: the writes whose completion handler has not run yet, oldest first, each
    with the characters its view covered when it was started;
  \<^item> \<open>invalidated\<close>: how many of them, counted from the oldest, hold a view that has been
    invalidated since;
  \<^item> \<open>transferred\<close>: what the socket has passed to the other end so far; \<open>Some c\<close> is a
    byte read through a valid view, \<open>None\<close> a byte of a write whose view had been
    invalidated, which the program does not determine.
\<close>

record tcp_connection =
  write_buffer :: string
  in_flight :: "string list"
  invalidated :: nat
  transferred :: "char option list"

text \<open>\<^verbatim>\<open>tcp_connection::create\<close>: a fresh connection.\<close>

definition create :: tcp_connection where
  "create = \<lparr>write_buffer = [], in_flight = [], invalidated = 0, transferred = []\<rparr>"

text \<open>
  A non-const operation \<open>f\<close> on \<^verbatim>\<open>write_buffer_\<close> (an assignment or \<^verbatim>\<open>+=\<close>): it changes
  the string and invalidates the view of every write in flight.
\<close>

definition mutate :: "(string \<Rightarrow> string) \<Rightarrow> tcp_connection \<Rightarrow> tcp_connection" where
  "mutate f c = c\<lparr>write_buffer := f (write_buffer c), invalidated := length (in_flight c)\<rparr>"

text \<open>
  \<^verbatim>\<open>tcp_connection::start_write\<close>: asserts a non-empty buffer and starts one write with a
  view of it.
\<close>

definition start_write :: "tcp_connection \<Rightarrow> failure + tcp_connection" where
  "start_write c =
     (if write_buffer c = [] then Inl Assertion_failed
      else Inr (c\<lparr>in_flight := in_flight c @ [write_buffer c]\<rparr>))"

text \<open>
  \<^verbatim>\<open>tcp_connection::write\<close> (\<open>write\<close> is a reserved word of the theory language, hence
  the longer name).
\<close>

definition write_message :: "string \<Rightarrow> tcp_connection \<Rightarrow> failure + tcp_connection" where
  "write_message message c =
     (if write_buffer c = [] then start_write (mutate (\<lambda>b. message) c)
      else Inr (mutate (\<lambda>b. b @ message) c))"

text \<open>
  \<^verbatim>\<open>tcp_connection::handle_write\<close>. The error code is not looked at;
  \<^verbatim>\<open>write_buffer_.substr (bytes_transferred)\<close> raises when the position is past the end.
\<close>

definition handle_write :: "bool \<Rightarrow> nat \<Rightarrow> tcp_connection \<Rightarrow> failure + tcp_connection" where
  "handle_write error bytes_transferred c =
     (if bytes_transferred > length (write_buffer c) then Inl Out_of_range
      else
        let c' = mutate (drop bytes_transferred) c
        in if write_buffer c' \<noteq> [] then start_write c' else Inr c')"

text \<open>
  The socket completing the oldest write in flight: it has passed \<open>bytes_transferred\<close>
  bytes to the other end (as many as the view covers unless it reports an error), read
  through the view of that write, and invokes \<^verbatim>\<open>handle_write\<close>. \<open>None\<close>: no such
  completion can occur in this state.
\<close>

definition async_write_completes ::
  "bool \<Rightarrow> nat \<Rightarrow> tcp_connection \<Rightarrow> (failure + tcp_connection) option"
where
  "async_write_completes error bytes_transferred c =
     (case in_flight c of
        [] \<Rightarrow> None
      | buffer # others \<Rightarrow>
          if bytes_transferred \<le> length buffer \<and> (error \<or> bytes_transferred = length buffer)
          then Some (handle_write error bytes_transferred
                 (c\<lparr>in_flight := others,
                    invalidated := invalidated c - 1,
                    transferred := transferred c @
                      (if invalidated c > 0 then replicate bytes_transferred None
                       else map Some (take bytes_transferred buffer))\<rparr>))
          else None)"

text \<open>
  What happens to a connection: a caller writes a message, or the socket completes a
  write. \<open>run\<close> plays a sequence of events; it stops at the first failure.
\<close>

datatype event = Write string | Write_completed bool nat

fun step :: "tcp_connection \<Rightarrow> event \<Rightarrow> (failure + tcp_connection) option" where
  "step c (Write message) = Some (write_message message c)"
| "step c (Write_completed error bytes_transferred) =
     async_write_completes error bytes_transferred c"

fun run :: "tcp_connection \<Rightarrow> event list \<Rightarrow> (failure + tcp_connection) option" where
  "run c [] = Some (Inr c)"
| "run c (e # es) =
     (case step c e of
        None \<Rightarrow> None
      | Some (Inl f) \<Rightarrow> Some (Inl f)
      | Some (Inr c') \<Rightarrow> run c' es)"

text \<open>
  The invariant of the outbound buffer: no write is in flight and the buffer is empty, or
  exactly one write is in flight, of a non-empty prefix of the buffer.
\<close>

definition one_write_outstanding :: "tcp_connection \<Rightarrow> bool" where
  "one_write_outstanding c =
     (case in_flight c of
        [] \<Rightarrow> write_buffer c = []
      | [buffer] \<Rightarrow> buffer \<noteq> [] \<and> prefix buffer (write_buffer c)
      | _ \<Rightarrow> False)"

section \<open>The protocol driver (class protocol)\<close>

subsection \<open>Length prefixes\<close>

text \<open>
  Modelled from the spec: \<^verbatim>\<open>util::conversion::to_byte_array\<close> and
  \<^verbatim>\<open>util::conversion::from_byte_array\<close> (util/conversion.hpp is not among the sources).
  The specification fixes a 4-byte length prefix in big or little endian order and leaves
  the order open, so the order is a parameter.
\<close>

datatype byte_order = Little_endian | Big_endian

definition to_byte_array :: "byte_order \<Rightarrow> 32 word \<Rightarrow> string" where
  "to_byte_array order input =
     (let n = unat input;
          little = [char_of n, char_of (n div 256), char_of (n div 65536),
                    char_of (n div 16777216)]
      in case order of Little_endian \<Rightarrow> little | Big_endian \<Rightarrow> rev little)"

definition from_byte_array :: "byte_order \<Rightarrow> string \<Rightarrow> 32 word" where
  "from_byte_array order bytes =
     word_of_nat
       (foldr (\<lambda>c n. of_char c + 256 * n)
          (case order of Little_endian \<Rightarrow> bytes | Big_endian \<Rightarrow> rev bytes) 0)"

subsection \<open>Commands\<close>

text \<open>
  Modelled from the spec: the enumeration of command types (command.hpp is not among the
  sources). The protocol driver names \<^verbatim>\<open>type_handshake_start\<close>, \<^verbatim>\<open>type_leader_claim\<close>,
  \<^verbatim>\<open>type_leader_announce\<close> and \<^verbatim>\<open>type_request_initiate\<close>; the others are those the
  specification lists. A command carries the two fields the driver reads and writes.
\<close>

datatype command_type =
    Type_handshake_start
  | Type_handshake_response
  | Type_leader_claim
  | Type_leader_announce
  | Type_request_initiate
  | Type_prepare
  | Type_promise
  | Type_accept
  | Type_accepted
  | Type_request_response
  | Type_error

record command =
  type :: command_type
  workload :: string

text \<open>
  The calls the protocol driver makes on its collaborators. \<open>New_buffer n\<close> is
  \<^verbatim>\<open>new char[n]\<close>; \<open>Async_read n h\<close> is \<^verbatim>\<open>boost::asio::async_read\<close> of \<open>n\<close> bytes with
  completion handler \<open>h\<close>; \<open>Callback c\<close> is the invocation of the pending command
  callback; \<open>Connection_close\<close> is \<^verbatim>\<open>tcp_connection::close\<close> and \<open>Quorum_mark_dead\<close>
  marks the peer dead in the quorum.
\<close>

datatype read_handler = Parse_size | Parse_command

datatype protocol_action =
    Handshake_start
  | Reset_state
  | Elect_leader_start
  | Announce_leadership_start
  | Heartbeat_timer_expires_from_now nat
  | Heartbeat_timer_async_wait
  | Receive_handshake_start command
  | Receive_leader_claim command
  | Receive_leader command
  | New_buffer nat
  | Async_read nat read_handler
  | Cancel_timeout
  | Callback command
  | Connection_close
  | Quorum_mark_dead

subsection \<open>The heartbeat\<close>

text \<open>
  The quorum and the three sub-protocols are not among the sources. They enter as a record
  of functions on the node state \<open>'s\<close>, and \<^verbatim>\<open>paxos::configuration::heartbeat_interval\<close>
  as a number of milliseconds. \<open>call a f\<close> makes the call \<open>a\<close>, whose effect on the node
  state is \<open>f\<close>.
\<close>

record 's collaborators =
  handshake_start :: "'s \<Rightarrow> 's"
  needs_new_leader :: "'s \<Rightarrow> bool"
  reset_state :: "'s \<Rightarrow> 's"
  elect_leader_start :: "'s \<Rightarrow> 's"
  we_are_the_leader :: "'s \<Rightarrow> bool"
  announce_leadership_start :: "'s \<Rightarrow> 's"
  heartbeat_interval :: nat

definition call ::
  "protocol_action \<Rightarrow> ('s \<Rightarrow> 's) \<Rightarrow> 's \<times> protocol_action list \<Rightarrow> 's \<times> protocol_action list"
where
  "call a f = (\<lambda>(s, trace). (f s, trace @ [a]))"

text \<open>\<^verbatim>\<open>protocol::heartbeat\<close>: one tick.\<close>

definition heartbeat ::
  "'s collaborators \<Rightarrow> 's \<times> protocol_action list \<Rightarrow> 's \<times> protocol_action list"
where
  "heartbeat env st0 =
     (let st1 = call Handshake_start (handshake_start env) st0;
          st2 = (if needs_new_leader env (fst st1) = True
                 then call Elect_leader_start (elect_leader_start env)
                        (call Reset_state (reset_state env) st1)
                 else st1);
          st3 = (if we_are_the_leader env (fst st2) = True
                 then call Announce_leadership_start (announce_leadership_start env) st2
                 else st2);
          st4 = call (Heartbeat_timer_expires_from_now (heartbeat_interval env)) id st3
      in call Heartbeat_timer_async_wait id st4)"

text \<open>\<^verbatim>\<open>protocol::bootstrap\<close> starts the first tick.\<close>

definition bootstrap ::
  "'s collaborators \<Rightarrow> 's \<times> protocol_action list \<Rightarrow> 's \<times> protocol_action list"
where
  "bootstrap env st0 = heartbeat env st0"

subsection \<open>Reading and dispatching commands\<close>

text \<open>\<^verbatim>\<open>protocol::read_command\<close>: a buffer of four bytes and a read that fills it.\<close>

definition read_command :: "protocol_action list" where
  "read_command = [New_buffer 4, Async_read 4 Parse_size]"

text \<open>
  \<^verbatim>\<open>protocol::handle_command\<close>. The result is the calls made and how the function ended:
  \<open>None\<close> when it returned, \<open>Some f\<close> when it stopped with \<open>f\<close>.
\<close>

definition handle_command :: "command \<Rightarrow> protocol_action list \<times> failure option" where
  "handle_command command =
     (case type command of
        Type_handshake_start \<Rightarrow> (Receive_handshake_start command # read_command, None)
      | Type_leader_claim \<Rightarrow> (Receive_leader_claim command # read_command, None)
      | Type_leader_announce \<Rightarrow> (Receive_leader command # read_command, None)
      | _ \<Rightarrow> ([], Some (Thrown Protocol_error)))"

text \<open>
  \<^verbatim>\<open>protocol::write_command\<close>. \<^verbatim>\<open>command::to_string\<close> is not among the sources and enters
  as the parameter \<open>to_string\<close> (modelled below as \<open>command_to_string\<close>). The size of the
  body is stored in a \<^verbatim>\<open>uint32_t\<close>.
\<close>

definition write_command ::
  "byte_order \<Rightarrow> (command \<Rightarrow> string) \<Rightarrow> command \<Rightarrow> tcp_connection
     \<Rightarrow> failure + tcp_connection"
where
  "write_command order to_string command destination =
     (let binary_string = to_string command;
          size = (word_of_nat (length binary_string) :: 32 word);
          buffer = to_byte_array order size @ binary_string
      in write_message buffer destination)"

text \<open>\<^verbatim>\<open>protocol::initiate_request\<close>.\<close>

definition initiate_request ::
  "byte_order \<Rightarrow> (command \<Rightarrow> string) \<Rightarrow> tcp_connection \<Rightarrow> string
     \<Rightarrow> failure + tcp_connection"
where
  "initiate_request order to_string connection byte_array =
     write_command order to_string
       \<lparr>type = Type_request_initiate, workload = byte_array\<rparr> connection"

text \<open>
  \<^verbatim>\<open>protocol::read_command_parse_size\<close>, the completion handler of the read of the length
  prefix: \<open>error\<close> tells whether the error code is set, \<open>bytes_buffer\<close> is the four-byte
  buffer.
\<close>

definition read_command_parse_size ::
  "byte_order \<Rightarrow> bool \<Rightarrow> nat \<Rightarrow> string \<Rightarrow> protocol_action list \<times> failure option"
where
  "read_command_parse_size order error bytes_transferred bytes_buffer =
     (if error then ([], None)
      else if bytes_transferred \<noteq> 4 then ([], Some Assertion_failed)
      else
        let bytes_raw = take 4 bytes_buffer;
            bytes = from_byte_array order bytes_raw
        in ([New_buffer (unat bytes), Async_read (unat bytes) Parse_command], None))"

text \<open>
  \<^verbatim>\<open>protocol::read_command_parse_command\<close>, the completion handler of the read of the
  body. \<^verbatim>\<open>command::from_string\<close> is not among the sources and enters as the parameter
  \<open>from_string\<close>; \<open>callback\<close> is the pending command callback, which runs inside this
  handler.
\<close>

definition read_command_parse_command ::
  "(string \<Rightarrow> command) \<Rightarrow> (command \<Rightarrow> protocol_action list \<times> failure option)
     \<Rightarrow> bool \<Rightarrow> nat \<Rightarrow> string \<Rightarrow> protocol_action list \<times> failure option"
where
  "read_command_parse_command from_string callback error bytes_transferred buffer =
     (if error then ([Cancel_timeout], None)
      else
        let byte_array = take bytes_transferred buffer;
            command = from_string byte_array;
            (actions, failure) = callback command
        in (Cancel_timeout # Callback command # actions, failure))"

text \<open>
  The socket completing a read of \<open>n\<close> bytes from the bytes still to come on the stream:
  without error when that many bytes arrive, with an error and the bytes that did arrive
  when the stream ends before. The result is the handler's arguments (error, bytes
  transferred, buffer) and the rest of the stream.
\<close>

definition async_read :: "nat \<Rightarrow> string \<Rightarrow> (bool \<times> nat \<times> string) \<times> string" where
  "async_read n stream =
     (if n \<le> length stream then ((False, n, take n stream), drop n stream)
      else ((True, length stream, stream), []))"

text \<open>The read a handler left pending, if any.\<close>

fun pending_read :: "protocol_action list \<Rightarrow> (nat \<times> read_handler) option" where
  "pending_read [] = None"
| "pending_read (Async_read n handler # actions) = Some (n, handler)"
| "pending_read (a # actions) = pending_read actions"

text \<open>
  One pass of the read path over a stream: \<^verbatim>\<open>read_command\<close>, the completion of the
  read of the prefix, \<^verbatim>\<open>read_command_parse_size\<close>, the completion of the read it
  issued, \<^verbatim>\<open>read_command_parse_command\<close>.
\<close>

definition read_one_command ::
  "byte_order \<Rightarrow> (string \<Rightarrow> command) \<Rightarrow> (command \<Rightarrow> protocol_action list \<times> failure option)
     \<Rightarrow> string \<Rightarrow> (protocol_action list \<times> failure option) \<times> string"
where
  "read_one_command order from_string callback stream =
     (let ((error1, n1, buffer1), rest1) = async_read 4 stream;
          (actions1, failure1) = read_command_parse_size order error1 n1 buffer1
      in case pending_read actions1 of
           None \<Rightarrow> ((read_command @ actions1, failure1), rest1)
         | Some (bytes, handler) \<Rightarrow>
             let ((error2, n2, buffer2), rest2) = async_read bytes rest1;
                 (actions2, failure2) =
                   read_command_parse_command from_string callback error2 n2 buffer2
             in ((read_command @ actions1 @ actions2, failure2), rest2))"

text \<open>
  \<^verbatim>\<open>protocol::new_connection\<close> starts the read path of a connection with
  \<^verbatim>\<open>handle_command\<close> as the callback; here, its first pass over a stream.
\<close>

definition new_connection ::
  "byte_order \<Rightarrow> (string \<Rightarrow> command) \<Rightarrow> string
     \<Rightarrow> (protocol_action list \<times> failure option) \<times> string"
where
  "new_connection order from_string stream =
     read_one_command order from_string handle_command stream"

subsection \<open>The serialisation of commands\<close>

text \<open>
  Modelled from the spec: \<^verbatim>\<open>command::to_string\<close> and \<^verbatim>\<open>command::from_string\<close> (the
  command class is not among the sources). The specification describes a command as a type
  discriminator and an opaque payload, has the body deserialised according to a type field
  parsed from the body itself, and requires that decoding an encoded command gives the
  command back: the body is one byte for the type, followed by the payload. A body without
  a known type byte is decoded as a command of type \<open>error\<close>.
\<close>

fun type_code :: "command_type \<Rightarrow> nat" where
  "type_code Type_handshake_start = 1"
| "type_code Type_handshake_response = 2"
| "type_code Type_leader_claim = 3"
| "type_code Type_leader_announce = 4"
| "type_code Type_request_initiate = 5"
| "type_code Type_prepare = 6"
| "type_code Type_promise = 7"
| "type_code Type_accept = 8"
| "type_code Type_accepted = 9"
| "type_code Type_request_response = 10"
| "type_code Type_error = 11"

definition code_type :: "nat \<Rightarrow> command_type" where
  "code_type n =
     (if n = 1 then Type_handshake_start
      else if n = 2 then Type_handshake_response
      else if n = 3 then Type_leader_claim
      else if n = 4 then Type_leader_announce
      else if n = 5 then Type_request_initiate
      else if n = 6 then Type_prepare
      else if n = 7 then Type_promise
      else if n = 8 then Type_accept
      else if n = 9 then Type_accepted
      else if n = 10 then Type_request_response
      else Type_error)"

definition command_to_string :: "command \<Rightarrow> string" where
  "command_to_string command = char_of (type_code (type command)) # workload command"

definition command_from_string :: "string \<Rightarrow> command" where
  "command_from_string s =
     (case s of
        [] \<Rightarrow> \<lparr>type = Type_error, workload = []\<rparr>
      | c # cs \<Rightarrow> \<lparr>type = code_type (of_char c), workload = cs\<rparr>)"

text \<open>A command whose serialisation has \<open>2 ^ 32\<close> bytes.\<close>

definition oversized_command :: command where
  "oversized_command =
     \<lparr>type = Type_request_initiate, workload = replicate 4294967295 (CHR ''a'')\<rparr>"

section \<open>Properties of the client retry layer\<close>


lemma do_request_never_not_ready:
  "Set_exception Not_ready \<notin> set (do_request respond wait b r)"
proof (induction respond wait b r rule: do_request.induct)
  case (1 respond wait byte_array retries)
  show ?case
    by (subst do_request.simps) (use 1 in \<open>auto split: prod.splits option.splits\<close>)
qed




text \<open>
  C3: when an attempt completes with an error and the counter is greater than zero, the
  client starts one timer of 500 ms; when its wait completes without an error code it makes
  one call of \<^verbatim>\<open>do_request\<close> with the counter decremented by one, and when the wait was
  cancelled it does nothing more. When an attempt completes with an error and the counter
  is zero, the promise is fulfilled with \<^verbatim>\<open>request_error\<close>.
\<close>

theorem do_request_error_retries_or_request_error:
  assumes "fst (respond retries) = Some e"
  shows "(0 < retries \<and> \<not> wait retries \<longrightarrow>
            do_request respond wait byte_array retries =
              [Request_queue_push byte_array retries, Expires_from_now 500, Async_wait False]
              @ do_request respond wait byte_array (retries - 1))
       \<and> (0 < retries \<and> wait retries \<longrightarrow>
            do_request respond wait byte_array retries =
              [Request_queue_push byte_array retries, Expires_from_now 500, Async_wait True])
       \<and> (retries = 0 \<longrightarrow>
            do_request respond wait byte_array retries =
              [Request_queue_push byte_array retries, Set_exception Request_error])"
proof -
  obtain response where r: "respond retries = (Some e, response)"
    using assms by (cases "respond retries") simp
  have unfolded: "do_request respond wait byte_array retries =
     Request_queue_push byte_array retries #
       (if retries > 0 then
          Expires_from_now 500 # Async_wait (wait retries) #
          (if \<not> wait retries then do_request respond wait byte_array (retries - 1) else [])
        else [Set_exception Request_error])"
    by (subst do_request.simps) (simp add: r)
  show ?thesis
  proof (intro conjI impI)
    assume "0 < retries \<and> \<not> wait retries"
    with unfolded show "do_request respond wait byte_array retries =
        [Request_queue_push byte_array retries, Expires_from_now 500, Async_wait False]
        @ do_request respond wait byte_array (retries - 1)"
      by simp
  next
    assume "0 < retries \<and> wait retries"
    with unfolded show "do_request respond wait byte_array retries =
        [Request_queue_push byte_array retries, Expires_from_now 500, Async_wait True]"
      by simp
  next
    assume "retries = 0"
    with unfolded show "do_request respond wait byte_array retries =
        [Request_queue_push byte_array retries, Set_exception Request_error]"
      by simp
  qed
qed

theorem do_request_error_retries_or_request_error_witness:
  "do_request (\<lambda>r. (Some Error_timeout, [])) (\<lambda>r. False) ''foo'' 1 =
     [Request_queue_push ''foo'' 1, Expires_from_now 500, Async_wait False,
      Request_queue_push ''foo'' 0, Set_exception Request_error]
   \<and> do_request (\<lambda>r. (Some Error_timeout, [])) (\<lambda>r. True) ''foo'' 1 =
     [Request_queue_push ''foo'' 1, Expires_from_now 500, Async_wait True]"
  using do_request_error_retries_or_request_error
          [of "\<lambda>r. (Some Error_timeout, [])" 1 Error_timeout "\<lambda>r. False" "''foo''"]
        do_request_error_retries_or_request_error
          [of "\<lambda>r. (Some Error_timeout, [])" 0 Error_timeout "\<lambda>r. False" "''foo''"]
        do_request_error_retries_or_request_error
          [of "\<lambda>r. (Some Error_timeout, [])" 1 Error_timeout "\<lambda>r. True" "''foo''"]
  by simp

text \<open>
  C4: the code at a request whose dispatch fails because the quorum is not ready. With
  the counter at zero the promise receives \<^verbatim>\<open>request_error\<close>; with retries left the
  backoff timer is started and the request is pushed again; \<^verbatim>\<open>not_ready\<close> is never
  delivered, whatever the errors, the timer results and the counter.
\<close>

theorem do_request_not_ready_is_retried_or_request_error:
  "do_request (\<lambda>r. (Some Error_not_ready, [])) wait ''foo'' 0 =
     [Request_queue_push ''foo'' 0, Set_exception Request_error]
   \<and> do_request (\<lambda>r. (Some Error_not_ready, [])) (\<lambda>r. False) ''foo'' 1 =
     [Request_queue_push ''foo'' 1, Expires_from_now 500, Async_wait False,
      Request_queue_push ''foo'' 0, Set_exception Request_error]
   \<and> Set_exception Not_ready \<notin> set (do_request respond wait' byte_array retries)"
proof (intro conjI)
  show "do_request (\<lambda>r. (Some Error_not_ready, [])) wait ''foo'' 0 =
     [Request_queue_push ''foo'' 0, Set_exception Request_error]"
    by (simp add: do_request.simps)
  show "do_request (\<lambda>r. (Some Error_not_ready, [])) (\<lambda>r. False) ''foo'' 1 =
     [Request_queue_push ''foo'' 1, Expires_from_now 500, Async_wait False,
      Request_queue_push ''foo'' 0, Set_exception Request_error]"
    by (simp add: do_request.simps)
  show "Set_exception Not_ready \<notin> set (do_request respond wait' byte_array retries)"
    by (rule do_request_never_not_ready)
qed

section \<open>Properties of the outbound buffer\<close>

lemma one_write_outstanding_cases:
  "one_write_outstanding c \<longleftrightarrow>
     (in_flight c = [] \<and> write_buffer c = []) \<or>
     (\<exists>b. in_flight c = [b] \<and> b \<noteq> [] \<and> prefix b (write_buffer c))"
  by (auto simp: one_write_outstanding_def split: list.splits)

lemma one_write_outstanding_create: "one_write_outstanding create"
  by (simp add: one_write_outstanding_def create_def)

lemma write_message_preserves:
  assumes "one_write_outstanding c" "write_message m c = Inr c'"
  shows "one_write_outstanding c'"
  using assms
  by (auto simp: one_write_outstanding_cases write_message_def start_write_def mutate_def
        split: if_splits)

lemma async_write_completes_preserves:
  assumes "one_write_outstanding c" "async_write_completes e n c = Some r"
  shows "\<exists>c'. r = Inr c' \<and> one_write_outstanding c'"
proof -
  from assms obtain b where b: "in_flight c = [b]" "b \<noteq> []" "prefix b (write_buffer c)"
    by (auto simp: one_write_outstanding_cases async_write_completes_def split: list.splits)
  from assms(2) b have n: "n \<le> length b"
    by (auto simp: async_write_completes_def split: if_splits)
  from b obtain rest where rest: "write_buffer c = b @ rest"
    by (auto simp: prefix_def)
  show ?thesis
    using assms(2) b n rest
    by (auto simp: async_write_completes_def handle_write_def start_write_def mutate_def
          one_write_outstanding_cases Let_def split: if_splits)
qed

lemma run_preserves:
  "one_write_outstanding c \<Longrightarrow> run c es = Some (Inr c') \<Longrightarrow> one_write_outstanding c'"
proof (induction es arbitrary: c)
  case Nil
  then show ?case by simp
next
  case (Cons e es)
  show ?case
  proof (cases e)
    case (Write m)
    with Cons.prems obtain c1
      where c1: "write_message m c = Inr c1" "run c1 es = Some (Inr c')"
      by (auto split: sum.splits)
    from write_message_preserves [OF Cons.prems(1) c1(1)] Cons.IH [OF _ c1(2)]
    show ?thesis by simp
  next
    case (Write_completed err n)
    with Cons.prems obtain c1
      where c1: "async_write_completes err n c = Some (Inr c1)" "run c1 es = Some (Inr c')"
      by (auto split: option.splits sum.splits)
    from async_write_completes_preserves [OF Cons.prems(1) c1(1)] Cons.IH [OF _ c1(2)]
    show ?thesis by simp
  qed
qed

lemma run_create_invariant:
  assumes "run create events = Some (Inr c)"
  shows "one_write_outstanding c"
  using run_preserves [OF one_write_outstanding_create assms] .

lemma completion_restarts_write:
  assumes "one_write_outstanding c" "async_write_completes error n c = Some (Inr c')"
  shows "in_flight c' = (if write_buffer c' = [] then [] else [write_buffer c'])"
  using assms
  by (auto simp: async_write_completes_def handle_write_def start_write_def mutate_def
        one_write_outstanding_cases Let_def split: if_splits list.splits)

text \<open>
  C6: the code on the path the claim is about. A first message of 16 bytes is written and
  its write is in flight; a second message of 32 bytes is written. It is appended to
  \<^verbatim>\<open>write_buffer_\<close> and no second write is started, as the claim says; but the append is
  a non-const operation on the string whose characters the write in flight is reading, so
  the view of that write is invalidated. When the write completes, the 16 bytes the other
  end was passed are not determined by the program; the rest of the buffer is then handed
  to the next write.
\<close>

theorem write_while_in_flight_invalidates_buffer:
  "write_message ''0123456789abcdef'' create =
     Inr \<lparr>write_buffer = ''0123456789abcdef'', in_flight = [''0123456789abcdef''],
          invalidated = 0, transferred = []\<rparr>
   \<and> write_message ''ABCDEFGHIJKLMNOPQRSTUVWXYZ012345''
       \<lparr>write_buffer = ''0123456789abcdef'', in_flight = [''0123456789abcdef''],
        invalidated = 0, transferred = []\<rparr> =
     Inr \<lparr>write_buffer = ''0123456789abcdefABCDEFGHIJKLMNOPQRSTUVWXYZ012345'',
          in_flight = [''0123456789abcdef''], invalidated = 1, transferred = []\<rparr>
   \<and> run create
       [Write ''0123456789abcdef'', Write ''ABCDEFGHIJKLMNOPQRSTUVWXYZ012345'',
        Write_completed False 16] =
     Some (Inr \<lparr>write_buffer = ''ABCDEFGHIJKLMNOPQRSTUVWXYZ012345'',
                in_flight = [''ABCDEFGHIJKLMNOPQRSTUVWXYZ012345''], invalidated = 0,
                transferred = replicate 16 None\<rparr>)
   \<and> run create [Write ''0123456789abcdef'', Write_completed False 16] =
     Some (Inr \<lparr>write_buffer = [], in_flight = [], invalidated = 0,
                transferred = map Some ''0123456789abcdef''\<rparr>)"
  by (simp add: create_def write_message_def start_write_def mutate_def
        async_write_completes_def handle_write_def)

text \<open>
  C9: every connection has at most one asynchronous write outstanding at any time, and one
  is outstanding exactly when the outbound buffer is non-empty. \<^verbatim>\<open>write\<close> starts a write
  only when the buffer was empty; after a completion \<^verbatim>\<open>handle_write\<close> starts the next
  write only if unsent bytes remain, and then it is the only one outstanding.
\<close>

theorem at_most_one_async_write_outstanding:
  assumes "run create events = Some (Inr c)"
  shows "length (in_flight c) \<le> 1
       \<and> (in_flight c = [] \<longleftrightarrow> write_buffer c = [])
       \<and> (\<forall>message c'. write_message message c = Inr c' \<longrightarrow>
             in_flight c' = (if write_buffer c = [] then [message] else in_flight c))
       \<and> (\<forall>error n c'. async_write_completes error n c = Some (Inr c') \<longrightarrow>
             in_flight c' = (if write_buffer c' = [] then [] else [write_buffer c']))"
proof -
  note inv = run_create_invariant [OF assms]
  have 1: "length (in_flight c) \<le> 1" and 2: "in_flight c = [] \<longleftrightarrow> write_buffer c = []"
    using inv by (auto simp: one_write_outstanding_cases)
  have 3: "in_flight c' = (if write_buffer c = [] then [message] else in_flight c)"
    if "write_message message c = Inr c'" for message c'
    using that 2 by (auto simp: write_message_def start_write_def mutate_def split: if_splits)
  have 4: "in_flight c' = (if write_buffer c' = [] then [] else [write_buffer c'])"
    if "async_write_completes error n c = Some (Inr c')" for error n c'
    using completion_restarts_write [OF inv that] .
  show ?thesis
    using 1 2 3 4 by blast
qed

theorem at_most_one_async_write_outstanding_witness:
  "run create [Write ''ab'', Write ''cd'', Write ''ef''] =
     Some (Inr \<lparr>write_buffer = ''abcdef'', in_flight = [''ab''], invalidated = 1,
                transferred = []\<rparr>)
   \<and> length [''ab''] \<le> (1::nat)
   \<and> async_write_completes False 2
        \<lparr>write_buffer = ''abcdef'', in_flight = [''ab''], invalidated = 1,
         transferred = []\<rparr> =
       Some (Inr \<lparr>write_buffer = ''cdef'', in_flight = [''cdef''], invalidated = 0,
                  transferred = [None, None]\<rparr>)"
  using at_most_one_async_write_outstanding
          [of "[Write ''ab'', Write ''cd'', Write ''ef'']"
              "\<lparr>write_buffer = ''abcdef'', in_flight = [''ab''], invalidated = 1,
                transferred = []\<rparr>"]
  by (simp add: create_def write_message_def start_write_def mutate_def
        async_write_completes_def handle_write_def numeral_2_eq_2)

section \<open>Properties of the protocol driver\<close>

lemma length_to_byte_array: "length (to_byte_array order w) = 4"
  by (cases order) (simp_all add: to_byte_array_def Let_def)

lemma nat_four_bytes:
  fixes n :: nat
  assumes "n < 4294967296"
  shows "n mod 256 + 256 * (n div 256 mod 256 + 256 * (n div 65536 mod 256
           + 256 * (n div 16777216 mod 256))) = n"
proof -
  define a where "a = n div 256"
  define b where "b = a div 256"
  define c where "c = b div 256"
  have b: "n div 65536 = b"
    unfolding b_def a_def by (simp add: div_mult2_eq [symmetric])
  have c: "n div 16777216 = c"
    unfolding c_def b_def a_def by (simp add: div_mult2_eq [symmetric])
  have "c < 256"
    using assms unfolding c [symmetric] by simp
  then have "b mod 256 + 256 * (c mod 256) = b"
    unfolding c_def by simp
  then have "a mod 256 + 256 * (b mod 256 + 256 * (c mod 256)) = a"
    unfolding b_def by simp
  then have "n mod 256 + 256 * (a mod 256 + 256 * (b mod 256 + 256 * (c mod 256))) = n"
    unfolding a_def by simp
  then show ?thesis
    unfolding b c a_def .
qed

lemma from_to_byte_array: "from_byte_array order (to_byte_array order w) = w"
proof -
  have less: "unat w < 4294967296"
    using unsigned_less [of w, where 'a = nat] by simp
  then have "unat w div 16777216 mod 256 = unat w div 16777216"
    by simp
  with nat_four_bytes [OF less]
  have "foldr (\<lambda>c n. of_char c + 256 * n)
          [char_of (unat w), char_of (unat w div 256), char_of (unat w div 65536),
           char_of (unat w div 16777216)] 0 = unat w"
    by simp
  then show ?thesis
    by (cases order)
       (simp_all add: from_byte_array_def to_byte_array_def Let_def del: foldr.simps)
qed

lemma two_to_32_wraps: "(4294967296 :: 32 word) = 0"
proof -
  have "(word_of_nat 4294967296 :: 32 word) = 0"
    by (simp only: word_of_nat_eq_0_iff) simp
  then show ?thesis by simp
qed

lemma read_command_parse_size_prefix:
  "read_command_parse_size order False 4 (to_byte_array order w) =
     ([New_buffer (unat w), Async_read (unat w) Parse_command], None)"
  by (simp add: read_command_parse_size_def length_to_byte_array from_to_byte_array)

lemma read_command_parse_size_never_closes:
  "Connection_close \<notin> set (fst (read_command_parse_size order error n buffer))"
  "Quorum_mark_dead \<notin> set (fst (read_command_parse_size order error n buffer))"
  by (simp_all add: read_command_parse_size_def Let_def)

lemma async_read_available:
  "async_read (length xs) (xs @ rest) = ((False, length xs, xs), rest)"
  by (simp add: async_read_def)

lemma command_round_trip: "command_from_string (command_to_string command) = command"
  by (cases "type command")
     (simp_all add: command_from_string_def command_to_string_def code_type_def)

lemma oversized_length: "length (command_to_string oversized_command) = 4294967296"
  by (simp add: command_to_string_def oversized_command_def)

lemma read_one_command_frame:
  assumes "length body < 2 ^ 32"
  shows "read_one_command order from_string callback
           (to_byte_array order (word_of_nat (length body)) @ body @ rest) =
         ((read_command @ [New_buffer (length body), Async_read (length body) Parse_command,
             Cancel_timeout, Callback (from_string body)] @ fst (callback (from_string body)),
           snd (callback (from_string body))), rest)"
proof -
  let ?w = "word_of_nat (length body) :: 32 word"
  have u: "unat ?w = length body"
    using assms by (simp add: unat_of_nat take_bit_nat_eq_self)
  have a1: "async_read 4 (to_byte_array order ?w @ body @ rest) =
      ((False, 4, to_byte_array order ?w), body @ rest)"
    using async_read_available [of "to_byte_array order ?w" "body @ rest"]
    by (simp add: length_to_byte_array)
  have a2: "async_read (length body) (body @ rest) = ((False, length body, body), rest)"
    by (rule async_read_available)
  show ?thesis
    by (simp add: read_one_command_def a1 read_command_parse_size_prefix u a2
          read_command_parse_command_def Let_def case_prod_beta)
qed

text \<open>
  C2, as stated, fails: the code has no maximum frame size. At the largest prefix a frame
  can carry, 4294967295 (above 16 MiB, and above every maximum a 32-bit prefix can exceed),
  \<^verbatim>\<open>read_command_parse_size\<close> allocates a buffer of that length and issues a read for
  it, in either byte order.
\<close>

theorem read_command_parse_size_reads_oversized_frame:
  "(16777216::nat) < unat (from_byte_array Big_endian [CHR 0xFF, CHR 0xFF, CHR 0xFF, CHR 0xFF])
   \<and> read_command_parse_size Big_endian False 4 [CHR 0xFF, CHR 0xFF, CHR 0xFF, CHR 0xFF] =
       ([New_buffer 4294967295, Async_read 4294967295 Parse_command], None)
   \<and> read_command_parse_size Little_endian False 4 [CHR 0xFF, CHR 0xFF, CHR 0xFF, CHR 0xFF] =
       ([New_buffer 4294967295, Async_read 4294967295 Parse_command], None)"
  by (simp add: read_command_parse_size_def from_byte_array_def)

text \<open>
  C2, amended: for every value of the 4-byte length prefix, also above any maximum frame
  size, \<^verbatim>\<open>read_command_parse_size\<close> allocates a buffer of that length and issues a read
  for that many body bytes; it never closes the connection and never marks the peer dead.
\<close>

theorem read_command_parse_size_reads_any_length:
  "read_command_parse_size order False 4 (to_byte_array order w) =
     ([New_buffer (unat w), Async_read (unat w) Parse_command], None)
   \<and> Connection_close \<notin> set (fst (read_command_parse_size order error n buffer))
   \<and> Quorum_mark_dead \<notin> set (fst (read_command_parse_size order error n buffer))"
  using read_command_parse_size_prefix read_command_parse_size_never_closes by blast

theorem read_command_parse_size_reads_any_length_witness:
  "read_command_parse_size Big_endian False 4 (to_byte_array Big_endian 16777217) =
     ([New_buffer 16777217, Async_read 16777217 Parse_command], None)
   \<and> to_byte_array Big_endian 16777217 = [CHR 0x01, CHR 0x00, CHR 0x00, CHR 0x01]"
  using read_command_parse_size_reads_any_length [of Big_endian 16777217]
  by (simp add: to_byte_array_def char_of_eq_iff)

text \<open>
  C5: every heartbeat tick, whatever was done before it, makes its calls in this order:
  the handshake sweep is started;
  then, if \<^verbatim>\<open>needs_new_leader ()\<close> holds, \<^verbatim>\<open>reset_state ()\<close> is called and after it the
  election is started; then, if \<^verbatim>\<open>we_are_the_leader ()\<close> holds (in the state the previous
  calls left), the leadership announcement is started; finally the timer is set to one
  \<^verbatim>\<open>heartbeat_interval\<close> and the next tick is scheduled on it.
\<close>

theorem heartbeat_order:
  "snd (heartbeat env (s, earlier)) =
     (let s1 = handshake_start env s;
          s2 = (if needs_new_leader env s1
                then elect_leader_start env (reset_state env s1) else s1)
      in earlier @ [Handshake_start]
         @ (if needs_new_leader env s1 then [Reset_state, Elect_leader_start] else [])
         @ (if we_are_the_leader env s2 then [Announce_leadership_start] else [])
         @ [Heartbeat_timer_expires_from_now (heartbeat_interval env),
            Heartbeat_timer_async_wait])"
  by (simp add: heartbeat_def call_def Let_def)

theorem heartbeat_order_witness:
  "snd (heartbeat
      \<lparr>handshake_start = id, needs_new_leader = (\<lambda>s. s = 0), reset_state = (\<lambda>s. 1),
       elect_leader_start = (\<lambda>s. 2), we_are_the_leader = (\<lambda>s. s = 2),
       announce_leadership_start = id, heartbeat_interval = 3000\<rparr> (0::nat, [])) =
     [Handshake_start, Reset_state, Elect_leader_start, Announce_leadership_start,
      Heartbeat_timer_expires_from_now 3000, Heartbeat_timer_async_wait]"
  using heartbeat_order
          [of "\<lparr>handshake_start = id, needs_new_leader = (\<lambda>s. s = 0), reset_state = (\<lambda>s. 1),
                elect_leader_start = (\<lambda>s. 2), we_are_the_leader = (\<lambda>s. s = 2),
                announce_leadership_start = id, heartbeat_interval = 3000\<rparr>" "0::nat" "[]"]
  by simp

text \<open>
  C7, as stated, fails: \<^verbatim>\<open>write_command\<close> stores the size of the body in a
  \<^verbatim>\<open>uint32_t\<close>. For a command whose serialised body has \<open>2 ^ 32\<close> bytes the prefix is 0,
  not the byte count; the reader then reads no body byte, hands the callback the command
  decoded from the empty string, which is another command, and leaves the whole body on
  the stream.
\<close>

theorem oversized_body_length_prefix_wraps:
  "command_from_string (command_to_string oversized_command) = oversized_command
   \<and> length (command_to_string oversized_command) = 4294967296
   \<and> write_command Little_endian command_to_string oversized_command create =
       Inr \<lparr>write_buffer = to_byte_array Little_endian 0 @ command_to_string oversized_command,
            in_flight = [to_byte_array Little_endian 0 @ command_to_string oversized_command],
            invalidated = 0, transferred = []\<rparr>
   \<and> unat (from_byte_array Little_endian (to_byte_array Little_endian 0)) = 0
   \<and> read_one_command Little_endian command_from_string (\<lambda>c. ([], None))
        (to_byte_array Little_endian 0 @ command_to_string oversized_command) =
       ((read_command @ [New_buffer 0, Async_read 0 Parse_command, Cancel_timeout,
           Callback (command_from_string [])], None),
        command_to_string oversized_command)
   \<and> command_from_string [] \<noteq> oversized_command"
proof (intro conjI)
  let ?body = "command_to_string oversized_command"
  show "command_from_string ?body = oversized_command"
    by (rule command_round_trip)
  show "length ?body = 4294967296"
    by (rule oversized_length)
  have nonempty: "?body \<noteq> []"
    by (simp add: command_to_string_def)
  show "write_command Little_endian command_to_string oversized_command create =
       Inr \<lparr>write_buffer = to_byte_array Little_endian 0 @ ?body,
            in_flight = [to_byte_array Little_endian 0 @ ?body],
            invalidated = 0, transferred = []\<rparr>"
    by (simp add: write_command_def write_message_def start_write_def mutate_def create_def
          Let_def oversized_length nonempty two_to_32_wraps)
  show "unat (from_byte_array Little_endian (to_byte_array Little_endian 0)) = 0"
    by (simp add: from_to_byte_array)
  have a1: "async_read 4 (to_byte_array Little_endian 0 @ ?body) =
      ((False, 4, to_byte_array Little_endian 0), ?body)"
    using async_read_available [of "to_byte_array Little_endian 0" ?body]
    by (simp add: length_to_byte_array)
  have a2: "async_read 0 ?body = ((False, 0, []), ?body)"
    by (simp add: async_read_def)
  have p0: "read_command_parse_size Little_endian False 4 (to_byte_array Little_endian 0) =
      ([New_buffer 0, Async_read 0 Parse_command], None)"
    using read_command_parse_size_prefix [of Little_endian 0] by simp
  show "read_one_command Little_endian command_from_string (\<lambda>c. ([], None))
        (to_byte_array Little_endian 0 @ ?body) =
       ((read_command @ [New_buffer 0, Async_read 0 Parse_command, Cancel_timeout,
           Callback (command_from_string [])], None), ?body)"
    by (simp add: read_one_command_def a1 a2 p0 read_command_parse_command_def)
  show "command_from_string [] \<noteq> oversized_command"
    by (simp add: command_from_string_def oversized_command_def)
qed

text \<open>
  C7, amended: for every command whose serialised body is shorter than \<open>2 ^ 32\<close> bytes,
  encoding it to a frame and decoding that frame yields the original command:
  \<^verbatim>\<open>write_command\<close> writes exactly a 4-byte length prefix equal to the byte count of the
  serialised body, followed by the body, and the read path parses that prefix, reads
  exactly that many body bytes and hands the callback a command equal to the original.
  The bytes after the frame stay on the stream.
\<close>

theorem framed_command_round_trip:
  assumes "length (command_to_string command) < 2 ^ 32"
  shows "(let body = command_to_string command;
              frame = to_byte_array order (word_of_nat (length body)) @ body
          in write_command order command_to_string command create =
               Inr \<lparr>write_buffer = frame, in_flight = [frame], invalidated = 0,
                    transferred = []\<rparr>
           \<and> length frame = 4 + length body
           \<and> unat (from_byte_array order (take 4 frame)) = length body
           \<and> drop 4 frame = body
           \<and> read_one_command order command_from_string callback (frame @ rest) =
               ((read_command
                  @ [New_buffer (length body), Async_read (length body) Parse_command,
                     Cancel_timeout, Callback command]
                  @ fst (callback command), snd (callback command)), rest))"
proof -
  let ?body = "command_to_string command"
  let ?w = "word_of_nat (length ?body) :: 32 word"
  have u: "unat ?w = length ?body"
    using assms by (simp add: unat_of_nat take_bit_nat_eq_self)
  have nonempty: "to_byte_array order ?w @ ?body \<noteq> []"
    using length_to_byte_array [of order ?w] by (cases "to_byte_array order ?w") simp_all
  have w: "write_command order command_to_string command create =
      Inr \<lparr>write_buffer = to_byte_array order ?w @ ?body,
           in_flight = [to_byte_array order ?w @ ?body], invalidated = 0,
           transferred = []\<rparr>"
    using nonempty
    by (simp add: write_command_def write_message_def start_write_def mutate_def create_def
          Let_def)
  have r: "read_one_command order command_from_string callback
             ((to_byte_array order ?w @ ?body) @ rest) =
      ((read_command @ [New_buffer (length ?body), Async_read (length ?body) Parse_command,
          Cancel_timeout, Callback command] @ fst (callback command),
        snd (callback command)), rest)"
    using read_one_command_frame [OF assms, of order command_from_string callback rest]
    by (simp add: command_round_trip)
  show ?thesis
    unfolding Let_def
    by (intro conjI)
       (simp_all only: w r, simp_all add: length_to_byte_array from_to_byte_array u)
qed

theorem framed_command_round_trip_witness:
  "write_command Big_endian command_to_string
      \<lparr>type = Type_request_initiate, workload = ''foo''\<rparr> create =
     Inr \<lparr>write_buffer = [CHR 0x00, CHR 0x00, CHR 0x00, CHR 0x04, CHR 0x05] @ ''foo'',
          in_flight = [[CHR 0x00, CHR 0x00, CHR 0x00, CHR 0x04, CHR 0x05] @ ''foo''],
          invalidated = 0, transferred = []\<rparr>
   \<and> read_one_command Big_endian command_from_string (\<lambda>c. ([], None))
       ([CHR 0x00, CHR 0x00, CHR 0x00, CHR 0x04, CHR 0x05] @ ''foo'' @ ''next'') =
     ((read_command @ [New_buffer 4, Async_read 4 Parse_command, Cancel_timeout,
         Callback \<lparr>type = Type_request_initiate, workload = ''foo''\<rparr>], None), ''next'')"
proof -
  let ?c = "\<lparr>type = Type_request_initiate, workload = ''foo''\<rparr>"
  have b: "command_to_string ?c = CHR 0x05 # ''foo''"
    by (simp add: command_to_string_def char_of_eq_iff)
  have p: "to_byte_array Big_endian 4 = [CHR 0x00, CHR 0x00, CHR 0x00, CHR 0x04]"
    by (simp add: to_byte_array_def char_of_eq_iff)
  have h: "length (command_to_string ?c) < 2 ^ 32"
    by (simp add: b)
  show ?thesis
    using framed_command_round_trip
            [where command = ?c and order = Big_endian and rest = "''next''"
               and callback = "\<lambda>c. ([], None)"] h
    by (simp add: b p Let_def)
qed

text \<open>
  C8, as stated, fails: \<^verbatim>\<open>type_request_initiate\<close>, the type \<^verbatim>\<open>initiate_request\<close> sends,
  is not among the types \<^verbatim>\<open>handle_command\<close> dispatches. For such a command
  \<^verbatim>\<open>handle_command\<close> raises \<^verbatim>\<open>protocol_error\<close> and makes no call: the connection is not
  closed, the peer is not marked dead, and the exception leaves the function.
\<close>

theorem handle_command_request_initiate_not_closed:
  "handle_command \<lparr>type = Type_request_initiate, workload = ''foo''\<rparr> =
     ([], Some (Thrown Protocol_error))
   \<and> Connection_close \<notin>
       set (fst (handle_command \<lparr>type = Type_request_initiate, workload = ''foo''\<rparr>))
   \<and> Quorum_mark_dead \<notin>
       set (fst (handle_command \<lparr>type = Type_request_initiate, workload = ''foo''\<rparr>))"
  by (simp add: handle_command_def)

text \<open>
  C8, amended: for every incoming command whose type is not among the types the dispatcher
  recognises, \<^verbatim>\<open>handle_command\<close> raises \<^verbatim>\<open>protocol_error\<close> before making any call: it
  does not close the connection, does not mark the peer dead and does not read the next
  command; the exception also leaves the completion handler that invoked the callback.
\<close>

theorem handle_command_unknown_type_throws:
  assumes "type command \<notin> {Type_handshake_start, Type_leader_claim, Type_leader_announce}"
  shows "handle_command command = ([], Some (Thrown Protocol_error))
       \<and> (from_string (take n buffer) = command \<longrightarrow>
            read_command_parse_command from_string handle_command False n buffer =
              ([Cancel_timeout, Callback command], Some (Thrown Protocol_error)))"
proof -
  have "handle_command command = ([], Some (Thrown Protocol_error))"
    using assms by (cases "type command") (simp_all add: handle_command_def)
  then show ?thesis
    by (simp add: read_command_parse_command_def)
qed

theorem handle_command_unknown_type_throws_witness:
  "handle_command \<lparr>type = Type_prepare, workload = ''w''\<rparr> = ([], Some (Thrown Protocol_error))
   \<and> read_command_parse_command command_from_string handle_command False 2
       [CHR 0x06, CHR ''w''] =
     ([Cancel_timeout, Callback \<lparr>type = Type_prepare, workload = ''w''\<rparr>],
      Some (Thrown Protocol_error))"
  using handle_command_unknown_type_throws
          [of "\<lparr>type = Type_prepare, workload = ''w''\<rparr>" command_from_string 2
              "[CHR 0x06, CHR ''w'']"]
  by (simp add: command_from_string_def code_type_def)

text \<open>
  C10: when the read of a frame's length prefix or of its body completes with an error,
  \<^verbatim>\<open>read_command_parse_size\<close> returns without making any call and
  \<^verbatim>\<open>read_command_parse_command\<close> returns after its one unconditional call,
  \<^verbatim>\<open>connection->cancel_timeout ()\<close>: the pending command callback is not invoked, the
  connection is not closed, nothing is done to the quorum or the peer, and no further read
  is issued, so no further command is dispatched from the connection.
\<close>

theorem read_error_stops_read_loop:
  "read_command_parse_size order True n buffer = ([], None)
   \<and> read_command_parse_command from_string callback True n buffer = ([Cancel_timeout], None)
   \<and> pending_read (fst (read_command_parse_size order True n buffer)) = None
   \<and> pending_read (fst (read_command_parse_command from_string callback True n buffer)) = None"
  by (simp add: read_command_parse_size_def read_command_parse_command_def)

theorem read_error_stops_read_loop_witness:
  "read_one_command Big_endian command_from_string handle_command [CHR 0x00, CHR 0x00] =
     ((read_command, None), [])
   \<and> read_command_parse_command command_from_string handle_command True 2
       [CHR 0x00, CHR 0x00] =
     ([Cancel_timeout], None)"
  using read_error_stops_read_loop
          [of Big_endian 2 "[CHR 0x00, CHR 0x00]" command_from_string handle_command]
  by (simp add: read_one_command_def async_read_def numeral_2_eq_2)

end
